theory Spec2Isabelle
  imports Complex_Main "HOL-Library.Sublist"
begin

section \<open>Python values used by the checkpoint callback\<close>

text \<open>
  The embedded source is \<^verbatim>\<open>src/deepctr_torch/callbacks.py\<close>, class
  \<^verbatim>\<open>ModelCheckpoint\<close>.

  Metric values and \<^verbatim>\<open>self.best\<close> are Python floats. Only comparisons are made on
  them, so a finite float is represented by the real number it denotes; the two
  infinities and NaN are separate values. Comparisons follow IEEE-754 as Python
  exposes it: every ordering comparison with NaN is false, and NaN is unequal to
  everything, itself included.
\<close>

datatype pyfloat = NegInf | Fin real | PosInf | NaN

fun py_lt :: "pyfloat \<Rightarrow> pyfloat \<Rightarrow> bool" where
  "py_lt NaN _ = False"
| "py_lt _ NaN = False"
| "py_lt _ NegInf = False"
| "py_lt NegInf _ = True"
| "py_lt PosInf _ = False"
| "py_lt (Fin x) (Fin y) = (x < y)"
| "py_lt (Fin x) PosInf = True"

fun py_eq :: "pyfloat \<Rightarrow> pyfloat \<Rightarrow> bool" where
  "py_eq NaN _ = False"
| "py_eq _ NaN = False"
| "py_eq a b = (a = b)"

definition py_ne :: "pyfloat \<Rightarrow> pyfloat \<Rightarrow> bool" where
  "py_ne a b = (\<not> py_eq a b)"

text \<open>
  The builtins \<^verbatim>\<open>min(a, b)\<close> and \<^verbatim>\<open>max(a, b)\<close> keep their first argument unless
  the second one is strictly smaller (respectively strictly greater).
\<close>

definition py_min :: "pyfloat \<Rightarrow> pyfloat \<Rightarrow> pyfloat" where
  "py_min a b = (if py_lt b a then b else a)"

definition py_max :: "pyfloat \<Rightarrow> pyfloat \<Rightarrow> pyfloat" where
  "py_max a b = (if py_lt a b then b else a)"

datatype builtin = PyMin | PyMax

fun call_op :: "builtin \<Rightarrow> pyfloat \<Rightarrow> pyfloat \<Rightarrow> pyfloat" where
  "call_op PyMin a b = py_min a b"
| "call_op PyMax a b = py_max a b"

datatype pyval = PyInt int | PyFloat pyfloat

datatype error =
    KeyError string
  | TypeError
  | ValueError
  | AttributeError
  | FileNotFoundError string
  | OSError string
  | PicklingError

section \<open>The collaborators: string formatting, the file system, torch.save\<close>

text \<open>
  \<^verbatim>\<open>str.format\<close> splits its template into literal text and replacement fields
  \<^verbatim>\<open>{name:spec}\<close>; the template is kept in that split form. How one value is
  rendered under a format spec (\<^verbatim>\<open>format(value, spec)\<close>) is a parameter of the
  environment, as are the failures of the operating system and of the serializer.
\<close>

datatype piece = Lit string | Field string string

text \<open>
  What a file holds: a serialized \<^verbatim>\<open>state_dict\<close>, a serialized model, or the
  empty or partial content left by a write that failed.
\<close>

datatype 'm payload = StateDict 'm | FullModel 'm | Truncated

text \<open>
  \<^verbatim>\<open>torch.save\<close> first opens the destination for writing, which creates or
  truncates it, and then serializes into it. A failure of the open leaves the
  file system as it was; a failure after it leaves a truncated file.
\<close>

datatype save_failure = BeforeOpen error | AfterOpen error

datatype message =
    Skipping string
  | Improved int string pyfloat pyfloat string
  | NotImproved int string pyfloat
  | Saving int string

record env =
  format_value :: "pyval \<Rightarrow> string \<Rightarrow> error + string"
  makedirs_error :: "string \<Rightarrow> error option"
  save_error :: "string \<Rightarrow> save_failure option"

record 'm world =
  console :: "message list"
  dirs :: "string set"
  files :: "string \<rightharpoonup> 'm payload"

definition print :: "message \<Rightarrow> 'm world \<Rightarrow> 'm world" where
  "print msg w = w\<lparr>console := console w @ [msg]\<rparr>"

text \<open>
  \<^verbatim>\<open>template.format(epoch=e, **logs)\<close>: a key \<^verbatim>\<open>epoch\<close> in \<^verbatim>\<open>logs\<close> is a
  duplicate keyword argument (TypeError); a field whose name is not among the
  keyword arguments raises KeyError; fields are rendered from left to right.
\<close>

fun format_pieces ::
  "env \<Rightarrow> piece list \<Rightarrow> (string \<rightharpoonup> pyval) \<Rightarrow> error + string" where
  "format_pieces E [] kw = Inr []"
| "format_pieces E (Lit s # ps) kw =
     (case format_pieces E ps kw of Inl e \<Rightarrow> Inl e | Inr rest \<Rightarrow> Inr (s @ rest))"
| "format_pieces E (Field name spec # ps) kw =
     (case kw name of
        None \<Rightarrow> Inl (KeyError name)
      | Some v \<Rightarrow>
          (case format_value E v spec of
             Inl e \<Rightarrow> Inl e
           | Inr s \<Rightarrow>
               (case format_pieces E ps kw of Inl e \<Rightarrow> Inl e | Inr rest \<Rightarrow> Inr (s @ rest))))"

definition format_path ::
  "env \<Rightarrow> piece list \<Rightarrow> int \<Rightarrow> (string \<rightharpoonup> pyfloat) \<Rightarrow> error + string" where
  "format_path E template e logs =
     (if logs ''epoch'' \<noteq> None then Inl TypeError
      else format_pieces E template
             ((\<lambda>k. map_option PyFloat (logs k))(''epoch'' \<mapsto> PyInt e)))"

text \<open>
  \<^verbatim>\<open>os.path.dirname\<close> (posixpath): everything up to and including the last slash,
  with trailing slashes stripped unless the head consists of slashes only.
\<close>

definition rstrip_sep :: "string \<Rightarrow> string" where
  "rstrip_sep s = rev (dropWhile (\<lambda>c. c = CHR ''/'') (rev s))"

definition dirname :: "string \<Rightarrow> string" where
  "dirname p =
     (let head = rev (dropWhile (\<lambda>c. c \<noteq> CHR ''/'') (rev p))
      in if head \<noteq> [] \<and> head \<noteq> replicate (length head) CHR ''/''
         then rstrip_sep head else head)"

text \<open>
  \<^verbatim>\<open>os.path.exists('')\<close> is False and \<^verbatim>\<open>os.makedirs('')\<close> raises
  FileNotFoundError. Otherwise \<^verbatim>\<open>makedirs\<close> creates the directory and its missing
  ancestors unless the operating system refuses; a refused call is taken to
  leave the file system as it was.
\<close>

definition path_exists :: "'m world \<Rightarrow> string \<Rightarrow> bool" where
  "path_exists w p = (p \<noteq> [] \<and> (p \<in> dirs w \<or> files w p \<noteq> None))"

definition ancestors :: "string \<Rightarrow> string set" where
  "ancestors d =
     set (filter (\<lambda>a. a \<noteq> [])
            (map (\<lambda>i. rstrip_sep (take i d))
               (filter (\<lambda>i. d ! i = CHR ''/'') [0..<length d])))"

definition makedirs :: "env \<Rightarrow> string \<Rightarrow> 'm world \<Rightarrow> error + 'm world" where
  "makedirs E d w =
     (if d = [] then Inl (FileNotFoundError d)
      else case makedirs_error E d of
             Some e \<Rightarrow> Inl e
           | None \<Rightarrow> Inr (w\<lparr>dirs := dirs w \<union> {d} \<union> ancestors d\<rparr>))"

definition torch_save ::
  "env \<Rightarrow> 'm payload \<Rightarrow> string \<Rightarrow> 'm world \<Rightarrow> error option \<times> 'm world" where
  "torch_save E obj path w =
     (case save_error E path of
        Some (BeforeOpen e) \<Rightarrow> (Some e, w)
      | Some (AfterOpen e) \<Rightarrow> (Some e, w\<lparr>files := (files w)(path \<mapsto> Truncated)\<rparr>)
      | None \<Rightarrow> (None, w\<lparr>files := (files w)(path \<mapsto> obj)\<rparr>))"

section \<open>ModelCheckpoint\<close>

text \<open>
  The attributes of \<^verbatim>\<open>self\<close>. \<^verbatim>\<open>model\<close> is not assigned by \<^verbatim>\<open>__init__\<close>; the
  training driver attaches it later, and reading it before that raises
  AttributeError.
\<close>

record 'm checkpoint =
  filepath :: "piece list"
  monitor :: string
  verbose :: int
  save_best_only :: bool
  save_weights_only :: bool
  period :: int
  epochs_since_last_save :: int
  best :: pyfloat
  monitor_op :: builtin
  model :: "'m option"

text \<open>\<^verbatim>\<open>__init__\<close>, lines 19--36.\<close>

definition init ::
  "piece list \<Rightarrow> string \<Rightarrow> int \<Rightarrow> bool \<Rightarrow> string \<Rightarrow> bool \<Rightarrow> int \<Rightarrow> 'm checkpoint" where
  "init filepath' monitor' verbose' save_best_only' mode save_weights_only' period' =
     (let self = \<lparr> filepath = filepath', monitor = monitor', verbose = verbose',
                   save_best_only = save_best_only',
                   save_weights_only = save_weights_only', period = period',
                   epochs_since_last_save = 0,
                   best = (if mode = ''min'' then PosInf else NegInf),
                   monitor_op = (if mode = ''min'' then PyMin else PyMax),
                   model = None \<rparr>
      in if mode = ''auto'' then
           (if sublist ''acc'' (monitor self)
            then self\<lparr>monitor_op := PyMax, best := NegInf\<rparr>
            else self\<lparr>monitor_op := PyMin, best := PosInf\<rparr>)
         else self)"

text \<open>\<^verbatim>\<open>_save_model\<close>, lines 65--73.\<close>

definition save_model ::
  "env \<Rightarrow> 'm checkpoint \<Rightarrow> int \<Rightarrow> string \<Rightarrow> 'm world \<Rightarrow> error option \<times> 'm world" where
  "save_model E self epoch path w =
     (let directory = dirname path
      in case (if \<not> path_exists w directory then makedirs E directory w else Inr w) of
           Inl e \<Rightarrow> (Some e, w)
         | Inr w1 \<Rightarrow>
             (if save_weights_only self then
                (case model self of
                   None \<Rightarrow> (Some AttributeError, w1)
                 | Some m \<Rightarrow> torch_save E (StateDict m) path w1)
              else
                (case model self of
                   None \<Rightarrow> (Some AttributeError, w1)
                 | Some m \<Rightarrow> torch_save E (FullModel m) path w1)))"

text \<open>
  The body of \<^verbatim>\<open>if self.epochs_since_last_save >= self.period\<close>, lines 43--63:
  one save attempt. An exception leaves the attributes assigned so far in place.
\<close>

definition save_attempt ::
  "env \<Rightarrow> 'm checkpoint \<Rightarrow> int \<Rightarrow> (string \<rightharpoonup> pyfloat) \<Rightarrow> 'm world
     \<Rightarrow> error option \<times> 'm world \<times> 'm checkpoint" where
  "save_attempt E self0 epoch logs w =
     (let self = self0\<lparr>epochs_since_last_save := 0\<rparr>
      in case format_path E (filepath self) (epoch + 1) logs of
           Inl e \<Rightarrow> (Some e, w, self)
         | Inr path \<Rightarrow>
             (if save_best_only self then
                (case logs (monitor self) of
                   None \<Rightarrow>
                     (None,
                      (if verbose self > 0 then print (Skipping (monitor self)) w else w),
                      self)
                 | Some current \<Rightarrow>
                     (if py_ne (call_op (monitor_op self) current (best self)) (best self)
                      then
                        (let w1 = (if verbose self > 0
                                   then print (Improved (epoch + 1) (monitor self)
                                                 (best self) current path) w
                                   else w);
                             self1 = self\<lparr>best := current\<rparr>;
                             (r, w2) = save_model E self1 epoch path w1
                         in (r, w2, self1))
                      else
                        (None,
                         (if verbose self > 0
                          then print (NotImproved (epoch + 1) (monitor self) (best self)) w
                          else w),
                         self)))
              else
                (let w1 = (if verbose self > 0
                           then print (Saving (epoch + 1) path) w else w);
                     (r, w2) = save_model E self epoch path w1
                 in (r, w2, self))))"

text \<open>\<^verbatim>\<open>logs or {}\<close>, line 39: \<^verbatim>\<open>None\<close> stands for the empty mapping.\<close>

definition or_empty :: "(string \<rightharpoonup> pyfloat) option \<Rightarrow> (string \<rightharpoonup> pyfloat)" where
  "or_empty logs = (case logs of None \<Rightarrow> Map.empty | Some l \<Rightarrow> l)"

text \<open>\<^verbatim>\<open>on_epoch_end\<close>, lines 38--63.\<close>

definition on_epoch_end ::
  "env \<Rightarrow> 'm checkpoint \<Rightarrow> int \<Rightarrow> (string \<rightharpoonup> pyfloat) option \<Rightarrow> 'm world
     \<Rightarrow> error option \<times> 'm world \<times> 'm checkpoint" where
  "on_epoch_end E self0 epoch logs0 w =
     (let logs = or_empty logs0;
          self = self0\<lparr>epochs_since_last_save := epochs_since_last_save self0 + 1\<rparr>
      in if epochs_since_last_save self \<ge> period self
         then save_attempt E self epoch logs w
         else (None, w, self))"

section \<open>A training run, and a concrete environment\<close>

text \<open>
  A training run calls \<^verbatim>\<open>on_epoch_end\<close> once per epoch. The run below keeps
  going after a call that raised, with the attributes and the world as the
  exception left them.
\<close>

fun run ::
  "env \<Rightarrow> (int \<times> (string \<rightharpoonup> pyfloat) option) list \<Rightarrow> 'm world \<times> 'm checkpoint
     \<Rightarrow> 'm world \<times> 'm checkpoint" where
  "run E [] ws = ws"
| "run E ((epoch, logs) # calls) (w, self) =
     (case on_epoch_end E self epoch logs w of (r, w', self') \<Rightarrow> run E calls (w', self'))"

text \<open>
  An environment in which the operating system and the serializer never refuse,
  and a world with an empty console and an empty file system. The examples use
  templates that are literal text or that fail on a missing name, before any
  value is rendered, so the renderer of this environment is never reached.
\<close>

definition plain_env :: env where
  "plain_env = \<lparr> format_value = (\<lambda>v spec. Inl ValueError),
                  makedirs_error = (\<lambda>d. None), save_error = (\<lambda>p. None) \<rparr>"

definition empty_world :: "nat world" where
  "empty_world = \<lparr> console = [], dirs = {}, files = Map.empty \<rparr>"

text \<open>
  A callback as a training driver sets it up for the examples below: it monitors
  \<^verbatim>\<open>val_loss\<close> with \<^verbatim>\<open>save_best_only=True\<close>, \<^verbatim>\<open>mode='min'\<close> and \<^verbatim>\<open>verbose=0\<close>,
  a model is attached, and \<^verbatim>\<open>best\<close> holds the best value of earlier epochs.
\<close>

definition tracking :: "piece list \<Rightarrow> int \<Rightarrow> pyfloat \<Rightarrow> nat checkpoint" where
  "tracking template n b =
     (init template ''val_loss'' 0 True ''min'' False n)\<lparr>model := Some 7, best := b\<rparr>"

definition ckpt_world :: "nat world" where
  "ckpt_world = \<lparr> console = [], dirs = {''ckpt''}, files = Map.empty \<rparr>"

text \<open>
  An environment whose disk is full: every file can be opened, and every write
  into it fails.
\<close>

definition disk_full_env :: env where
  "disk_full_env = \<lparr> format_value = (\<lambda>v spec. Inl ValueError),
                      makedirs_error = (\<lambda>d. None),
                      save_error = (\<lambda>p. Some (AfterOpen (OSError ''No space left on device''))) \<rparr>"

section \<open>Construction\<close>

text \<open>
  Claim C6. With mode \<^verbatim>\<open>auto\<close>: if the monitored name contains the substring
  \<^verbatim>\<open>acc\<close> the callback maximizes (\<^verbatim>\<open>monitor_op = max\<close>) and starts from minus
  infinity; for every other name it minimizes and starts from plus infinity.
\<close>

theorem init_auto:
  "(sublist ''acc'' mon \<longrightarrow>
      monitor_op (init fp mon v sbo ''auto'' swo p :: 'm checkpoint) = PyMax \<and>
      best (init fp mon v sbo ''auto'' swo p :: 'm checkpoint) = NegInf) \<and>
   (\<not> sublist ''acc'' mon \<longrightarrow>
      monitor_op (init fp mon v sbo ''auto'' swo p :: 'm checkpoint) = PyMin \<and>
      best (init fp mon v sbo ''auto'' swo p :: 'm checkpoint) = PosInf)"
  by (simp add: init_def Let_def)

theorem init_auto_witness:
  "sublist ''acc'' ''val_acc'' \<and>
   monitor_op (init [Lit ''m.pt''] ''val_acc'' 0 True ''auto'' False 1 :: nat checkpoint) = PyMax \<and>
   best (init [Lit ''m.pt''] ''val_acc'' 0 True ''auto'' False 1 :: nat checkpoint) = NegInf \<and>
   \<not> sublist ''acc'' ''val_loss'' \<and>
   monitor_op (init [Lit ''m.pt''] ''val_loss'' 0 True ''auto'' False 1 :: nat checkpoint) = PyMin \<and>
   best (init [Lit ''m.pt''] ''val_loss'' 0 True ''auto'' False 1 :: nat checkpoint) = PosInf"
proof -
  have a: "sublist ''acc'' ''val_acc''" by (simp add: sublist_Cons_right)
  have b: "\<not> sublist ''acc'' ''val_loss''" by (simp add: sublist_Cons_right)
  show ?thesis
    using a b
      init_auto [of "''val_acc''" "[Lit ''m.pt'']" 0 True False 1, where 'm = nat]
      init_auto [of "''val_loss''" "[Lit ''m.pt'']" 0 True False 1, where 'm = nat]
    by simp
qed

text \<open>
  Claim C9. Every mode other than \<^verbatim>\<open>min\<close> and \<^verbatim>\<open>auto\<close>, whether \<^verbatim>\<open>max\<close> or an
  unrecognized string, is accepted without error and configures maximizing:
  \<^verbatim>\<open>monitor_op = max\<close> and \<^verbatim>\<open>best\<close> is minus infinity.
\<close>

theorem init_other_mode_maximizes:
  "mode \<noteq> ''min'' \<Longrightarrow> mode \<noteq> ''auto'' \<Longrightarrow>
     monitor_op (init fp mon v sbo mode swo p :: 'm checkpoint) = PyMax \<and>
     best (init fp mon v sbo mode swo p :: 'm checkpoint) = NegInf"
  by (simp add: init_def Let_def)

theorem init_other_mode_maximizes_witness:
  "''minimum'' \<noteq> ''min'' \<and> ''minimum'' \<noteq> ''auto'' \<and>
   monitor_op (init [Lit ''m.pt''] ''val_loss'' 0 True ''minimum'' False 1 :: nat checkpoint) = PyMax \<and>
   best (init [Lit ''m.pt''] ''val_loss'' 0 True ''minimum'' False 1 :: nat checkpoint) = NegInf"
proof -
  have a: "''minimum'' \<noteq> ''min''" and b: "''minimum'' \<noteq> ''auto''" by simp_all
  show ?thesis
    using a b init_other_mode_maximizes [OF a b, of "[Lit ''m.pt'']" "''val_loss''" 0 True False 1,
        where 'm = nat]
    by simp
qed

section \<open>Calls below the cadence\<close>

text \<open>
  Claim C8. When the incremented counter is still below the period, the call
  returns normally and changes nothing but the counter: the world (console and
  file system) and every other attribute, \<^verbatim>\<open>best\<close> included, are as before,
  whatever the save policy and the metrics.
\<close>

theorem on_epoch_end_below_cadence:
  "epochs_since_last_save self + 1 < period self \<Longrightarrow>
   on_epoch_end E self epoch logs w =
     (None, w, self\<lparr>epochs_since_last_save := epochs_since_last_save self + 1\<rparr>)"
  by (simp add: on_epoch_end_def Let_def)

theorem on_epoch_end_below_cadence_witness:
  "epochs_since_last_save (init [Lit ''m.pt''] ''val_loss'' 1 True ''min'' False 3 :: nat checkpoint) + 1
     < period (init [Lit ''m.pt''] ''val_loss'' 1 True ''min'' False 3 :: nat checkpoint) \<and>
   on_epoch_end plain_env (init [Lit ''m.pt''] ''val_loss'' 1 True ''min'' False 3) 0
       (Some [''val_loss'' \<mapsto> Fin 0.5]) empty_world =
     (None, empty_world,
      (init [Lit ''m.pt''] ''val_loss'' 1 True ''min'' False 3)\<lparr>epochs_since_last_save := 1\<rparr>)"
proof -
  have h: "epochs_since_last_save (init [Lit ''m.pt''] ''val_loss'' 1 True ''min'' False 3 :: nat checkpoint) + 1
     < period (init [Lit ''m.pt''] ''val_loss'' 1 True ''min'' False 3 :: nat checkpoint)"
    by (simp add: init_def Let_def)
  show ?thesis
    using h on_epoch_end_below_cadence [OF h, of plain_env 0 "Some [''val_loss'' \<mapsto> Fin 0.5]" empty_world]
    by (simp add: init_def Let_def)
qed

section \<open>The persist step\<close>

lemma dirname_bare: "CHR ''/'' \<notin> set p \<Longrightarrow> dirname p = []"
  by (auto simp add: dirname_def)

text \<open>
  Claim C10. When the destination has no directory component (a bare file
  name, for which \<^verbatim>\<open>os.path.dirname\<close> gives the empty string), \<^verbatim>\<open>_save_model\<close>
  asks \<^verbatim>\<open>os.makedirs\<close> for the empty path and raises: nothing is written, in any
  world and any environment.
\<close>

theorem save_model_bare_filename_raises:
  "CHR ''/'' \<notin> set path \<Longrightarrow>
     dirname path = [] \<and>
     save_model E self epoch path w = (Some (FileNotFoundError []), w)"
  by (simp add: dirname_bare save_model_def path_exists_def makedirs_def)

theorem save_model_bare_filename_raises_witness:
  "CHR ''/'' \<notin> set ''model.pt'' \<and> dirname ''model.pt'' = [] \<and>
   save_model plain_env
       ((init [Lit ''model.pt''] ''val_loss'' 0 False ''auto'' False 1)\<lparr>model := Some 7\<rparr>)
       0 ''model.pt'' empty_world
     = (Some (FileNotFoundError []), empty_world)"
proof -
  have h: "CHR ''/'' \<notin> set ''model.pt''" by simp
  show ?thesis
    using h save_model_bare_filename_raises [OF h, of plain_env
        "(init [Lit ''model.pt''] ''val_loss'' 0 False ''auto'' False 1)\<lparr>model := Some 7\<rparr>"
        0 empty_world]
    by simp
qed

section \<open>One save attempt\<close>

lemmas eval_defs =
  init_def on_epoch_end_def save_attempt_def save_model_def Let_def or_empty_def
  format_path_def plain_env_def empty_world_def py_ne_def py_min_def py_max_def
  path_exists_def makedirs_def torch_save_def print_def dirname_def rstrip_sep_def
  tracking_def ckpt_world_def

lemma py_eq_iff: "py_eq a b \<longleftrightarrow> a = b \<and> a \<noteq> NaN"
  by (cases a; cases b) simp_all

lemma call_op_same: "call_op op a a = a"
  by (cases op) (simp_all add: py_min_def py_max_def)

lemma tie_not_improved: "py_eq current b \<Longrightarrow> \<not> py_ne (call_op op current b) b"
  by (auto simp add: py_eq_iff py_ne_def call_op_same)

lemma save_model_cong:
  "save_weights_only a = save_weights_only b \<Longrightarrow> model a = model b \<Longrightarrow>
     save_model E a epoch path w = save_model E b epoch path w"
  by (auto simp add: save_model_def Let_def split: sum.splits option.splits)

text \<open>
  Claim C1, as the source has it. The test of line 52 is
  \<^verbatim>\<open>monitor_op(current, best) != best\<close>, which is false when \<^verbatim>\<open>current == best\<close>.
  So on a due call with \<^verbatim>\<open>save_best_only\<close> whose path resolves, a monitored value
  equal to \<^verbatim>\<open>best\<close> is not an improvement: the call returns normally, \<^verbatim>\<open>best\<close>
  keeps its value, nothing is written, and only the "did not improve" line is
  printed when verbose.
\<close>

theorem tie_is_not_improvement:
  assumes "period self \<le> epochs_since_last_save self + 1"
    and "format_path E (filepath self) (epoch + 1) (or_empty logs) = Inr path"
    and "save_best_only self"
    and "or_empty logs (monitor self) = Some current"
    and "py_eq current (best self)"
  shows "on_epoch_end E self epoch logs w =
           (None,
            (if verbose self > 0
             then print (NotImproved (epoch + 1) (monitor self) (best self)) w else w),
            self\<lparr>epochs_since_last_save := 0\<rparr>)"
  using assms(1-4) tie_not_improved [OF assms(5), of "monitor_op self"]
  by (simp add: on_epoch_end_def save_attempt_def Let_def)

theorem tie_is_not_improvement_witness:
  "period (tracking [Lit ''ckpt/model.pt''] 1 NegInf)
     \<le> epochs_since_last_save (tracking [Lit ''ckpt/model.pt''] 1 NegInf) + 1 \<and>
   format_path plain_env (filepath (tracking [Lit ''ckpt/model.pt''] 1 NegInf)) (3 + 1)
     (or_empty (Some [''val_loss'' \<mapsto> NegInf])) = Inr ''ckpt/model.pt'' \<and>
   save_best_only (tracking [Lit ''ckpt/model.pt''] 1 NegInf) \<and>
   or_empty (Some [''val_loss'' \<mapsto> NegInf]) (monitor (tracking [Lit ''ckpt/model.pt''] 1 NegInf))
     = Some NegInf \<and>
   py_eq NegInf (best (tracking [Lit ''ckpt/model.pt''] 1 NegInf)) \<and>
   on_epoch_end plain_env (tracking [Lit ''ckpt/model.pt''] 1 NegInf) 3
       (Some [''val_loss'' \<mapsto> NegInf]) ckpt_world
     = (None, ckpt_world, tracking [Lit ''ckpt/model.pt''] 1 NegInf)"
proof -
  let ?s = "tracking [Lit ''ckpt/model.pt''] 1 NegInf"
  let ?l = "Some [''val_loss'' \<mapsto> NegInf]"
  have h1: "period ?s \<le> epochs_since_last_save ?s + 1" by (simp add: eval_defs)
  have h2: "format_path plain_env (filepath ?s) (3 + 1) (or_empty ?l) = Inr ''ckpt/model.pt''"
    by (simp add: eval_defs)
  have h3: "save_best_only ?s" by (simp add: eval_defs)
  have h4: "or_empty ?l (monitor ?s) = Some NegInf" by (simp add: eval_defs)
  have h5: "py_eq NegInf (best ?s)" by (simp add: eval_defs)
  have h6: "?s\<lparr>epochs_since_last_save := 0\<rparr> = ?s" "\<not> verbose ?s > 0"
    by (simp_all add: eval_defs)
  show ?thesis
    using h1 h2 h3 h4 h5 h6 tie_is_not_improvement [OF h1 h2 h3 h4 h5, of ckpt_world]
    by simp
qed

theorem tie_counterexample:
  "py_eq (Fin 1) (best (tracking [Lit ''ckpt/model.pt''] 1 (Fin 1))) \<and>
   on_epoch_end plain_env (tracking [Lit ''ckpt/model.pt''] 1 (Fin 1)) 0
       (Some [''val_loss'' \<mapsto> Fin 1]) ckpt_world
     = (None, ckpt_world, tracking [Lit ''ckpt/model.pt''] 1 (Fin 1)) \<and>
   files ckpt_world ''ckpt/model.pt'' = None"
  by (simp add: eval_defs)

text \<open>
  Claim C2, as the source has it. The path is resolved on line 44, before the
  monitored value is looked at. When resolution fails on a due call the error
  propagates with \<^verbatim>\<open>best\<close> and every other attribute as they were, except that
  the counter has been reset to 0; nothing is printed or written.
\<close>

theorem resolution_failure_precedes_comparison:
  assumes "period self \<le> epochs_since_last_save self + 1"
    and "format_path E (filepath self) (epoch + 1) (or_empty logs) = Inl e"
  shows "on_epoch_end E self epoch logs w =
           (Some e, w, self\<lparr>epochs_since_last_save := 0\<rparr>)"
  using assms by (simp add: on_epoch_end_def save_attempt_def Let_def)

theorem resolution_failure_precedes_comparison_witness:
  "period (tracking [Lit ''ckpt/m_'', Field ''val_acc'' []] 1 (Fin 1))
     \<le> epochs_since_last_save (tracking [Lit ''ckpt/m_'', Field ''val_acc'' []] 1 (Fin 1)) + 1 \<and>
   format_path plain_env (filepath (tracking [Lit ''ckpt/m_'', Field ''val_acc'' []] 1 (Fin 1)))
     (2 + 1) (or_empty (Some [''val_loss'' \<mapsto> Fin 0.25])) = Inl (KeyError ''val_acc'') \<and>
   on_epoch_end plain_env (tracking [Lit ''ckpt/m_'', Field ''val_acc'' []] 1 (Fin 1)) 2
       (Some [''val_loss'' \<mapsto> Fin 0.25]) ckpt_world
     = (Some (KeyError ''val_acc''), ckpt_world,
        tracking [Lit ''ckpt/m_'', Field ''val_acc'' []] 1 (Fin 1))"
proof -
  let ?s = "tracking [Lit ''ckpt/m_'', Field ''val_acc'' []] 1 (Fin 1)"
  let ?l = "Some [''val_loss'' \<mapsto> Fin 0.25]"
  have h1: "period ?s \<le> epochs_since_last_save ?s + 1" by (simp add: eval_defs)
  have h2: "format_path plain_env (filepath ?s) (2 + 1) (or_empty ?l) = Inl (KeyError ''val_acc'')"
    by (simp add: eval_defs)
  have h3: "?s\<lparr>epochs_since_last_save := 0\<rparr> = ?s" by (simp add: eval_defs)
  show ?thesis
    using h1 h2 h3 resolution_failure_precedes_comparison [OF h1 h2, of ckpt_world]
    by simp
qed

theorem resolution_failure_counterexample:
  "or_empty (Some [''val_loss'' \<mapsto> Fin 0.5]) ''val_loss'' = Some (Fin 0.5) \<and>
   fst (on_epoch_end plain_env (tracking [Lit ''ckpt/m_'', Field ''val_acc'' []] 1 (Fin 1)) 0
          (Some [''val_loss'' \<mapsto> Fin 0.5]) ckpt_world) = Some (KeyError ''val_acc'') \<and>
   best (snd (snd (on_epoch_end plain_env
                     (tracking [Lit ''ckpt/m_'', Field ''val_acc'' []] 1 (Fin 1)) 0
                     (Some [''val_loss'' \<mapsto> Fin 0.5]) ckpt_world))) = Fin 1 \<and>
   Fin 1 \<noteq> Fin 0.5"
  by (simp add: eval_defs)

text \<open>
  Claim C4, as the source has it. On a due call with \<^verbatim>\<open>save_best_only\<close> whose path
  resolves, a monitored metric that is missing from \<^verbatim>\<open>logs\<close> is a skip: no
  exception, nothing is written, \<^verbatim>\<open>best\<close> is unchanged, the counter is 0, and
  only the "skipping" line is printed when verbose.
\<close>

theorem missing_metric_skips:
  assumes "period self \<le> epochs_since_last_save self + 1"
    and "format_path E (filepath self) (epoch + 1) (or_empty logs) = Inr path"
    and "save_best_only self"
    and "or_empty logs (monitor self) = None"
  shows "on_epoch_end E self epoch logs w =
           (None,
            (if verbose self > 0 then print (Skipping (monitor self)) w else w),
            self\<lparr>epochs_since_last_save := 0\<rparr>)"
  using assms by (simp add: on_epoch_end_def save_attempt_def Let_def)

theorem missing_metric_skips_witness:
  "period (tracking [Lit ''ckpt/model.pt''] 1 (Fin 1))
     \<le> epochs_since_last_save (tracking [Lit ''ckpt/model.pt''] 1 (Fin 1)) + 1 \<and>
   format_path plain_env (filepath (tracking [Lit ''ckpt/model.pt''] 1 (Fin 1))) (0 + 1)
     (or_empty (Some [''val_acc'' \<mapsto> Fin 0.75])) = Inr ''ckpt/model.pt'' \<and>
   save_best_only (tracking [Lit ''ckpt/model.pt''] 1 (Fin 1)) \<and>
   or_empty (Some [''val_acc'' \<mapsto> Fin 0.75]) (monitor (tracking [Lit ''ckpt/model.pt''] 1 (Fin 1)))
     = None \<and>
   on_epoch_end plain_env (tracking [Lit ''ckpt/model.pt''] 1 (Fin 1)) 0
       (Some [''val_acc'' \<mapsto> Fin 0.75]) ckpt_world
     = (None, ckpt_world, tracking [Lit ''ckpt/model.pt''] 1 (Fin 1))"
proof -
  let ?s = "tracking [Lit ''ckpt/model.pt''] 1 (Fin 1)"
  let ?l = "Some [''val_acc'' \<mapsto> Fin 0.75]"
  have h1: "period ?s \<le> epochs_since_last_save ?s + 1" by (simp add: eval_defs)
  have h2: "format_path plain_env (filepath ?s) (0 + 1) (or_empty ?l) = Inr ''ckpt/model.pt''"
    by (simp add: eval_defs)
  have h3: "save_best_only ?s" by (simp add: eval_defs)
  have h4: "or_empty ?l (monitor ?s) = None" by (simp add: eval_defs)
  have h5: "?s\<lparr>epochs_since_last_save := 0\<rparr> = ?s" "\<not> verbose ?s > 0"
    by (simp_all add: eval_defs)
  show ?thesis
    using h1 h2 h3 h4 h5 missing_metric_skips [OF h1 h2 h3 h4, of ckpt_world]
    by simp
qed

text \<open>
  The claim as written fails in two ways: a template that names the missing
  metric raises KeyError, and a call below the cadence leaves the counter at 1.
\<close>

theorem missing_metric_counterexample:
  "save_best_only (tracking [Lit ''ckpt/model_'', Field ''val_loss'' ''.4f''] 1 (Fin 1)) \<and>
   or_empty (Some Map.empty) ''val_loss'' = None \<and>
   fst (on_epoch_end plain_env
          (tracking [Lit ''ckpt/model_'', Field ''val_loss'' ''.4f''] 1 (Fin 1)) 0
          (Some Map.empty) ckpt_world) = Some (KeyError ''val_loss'') \<and>
   epochs_since_last_save
     (snd (snd (on_epoch_end plain_env (tracking [Lit ''ckpt/model.pt''] 2 (Fin 1)) 0
                  (Some Map.empty) ckpt_world))) = 1"
  by (simp add: eval_defs)

text \<open>
  Claim C5. When \<^verbatim>\<open>_save_model\<close> raises (directory creation or serialization),
  the error propagates out of \<^verbatim>\<open>on_epoch_end\<close> and the attributes stay as
  updated: the counter is 0 and, with \<^verbatim>\<open>save_best_only\<close>, \<^verbatim>\<open>best\<close> is the new
  value. Here \<open>self1\<close> and \<open>w1\<close> are the attributes and the world at the
  moment \<^verbatim>\<open>_save_model\<close> is called.
\<close>

theorem persist_failure_keeps_updates:
  assumes due: "period self \<le> epochs_since_last_save self + 1"
    and path: "format_path E (filepath self) (epoch + 1) (or_empty logs) = Inr path"
    and imp: "save_best_only self \<longrightarrow>
           or_empty logs (monitor self) = Some current \<and>
           py_ne (call_op (monitor_op self) current (best self)) (best self)"
    and s1: "self1 = self\<lparr>epochs_since_last_save := 0,
                        best := (if save_best_only self then current else best self)\<rparr>"
    and w1: "w1 = (if verbose self > 0
               then print (if save_best_only self
                           then Improved (epoch + 1) (monitor self) (best self) current path
                           else Saving (epoch + 1) path) w
               else w)"
    and fails: "save_model E self1 epoch path w1 = (Some e, w2)"
  shows "on_epoch_end E self epoch logs w = (Some e, w2, self1) \<and>
         epochs_since_last_save self1 = 0 \<and>
         (save_best_only self \<longrightarrow> best self1 = current)"
proof (cases "save_best_only self")
  case True
  have "save_model E (self\<lparr>epochs_since_last_save := 0, best := current\<rparr>) epoch path w1
          = (Some e, w2)"
    using fails s1 True by simp
  then show ?thesis
    using True due path imp s1 w1
    by (auto simp add: on_epoch_end_def save_attempt_def Let_def)
next
  case False
  have "save_model E (self\<lparr>epochs_since_last_save := 0\<rparr>) epoch path w1 = (Some e, w2)"
    using fails s1 False save_model_cong [of self1 "self\<lparr>epochs_since_last_save := 0\<rparr>"]
    by simp
  moreover have "self1 = self\<lparr>epochs_since_last_save := 0\<rparr>"
    using s1 False by simp
  ultimately show ?thesis
    using False due path w1
    by (auto simp add: on_epoch_end_def save_attempt_def Let_def)
qed

theorem persist_failure_keeps_updates_witness:
  "period (tracking [Lit ''ckpt/model.pt''] 1 (Fin 1))
     \<le> epochs_since_last_save (tracking [Lit ''ckpt/model.pt''] 1 (Fin 1)) + 1 \<and>
   format_path disk_full_env (filepath (tracking [Lit ''ckpt/model.pt''] 1 (Fin 1))) (0 + 1)
     (or_empty (Some [''val_loss'' \<mapsto> Fin 0.5])) = Inr ''ckpt/model.pt'' \<and>
   save_best_only (tracking [Lit ''ckpt/model.pt''] 1 (Fin 1)) \<and>
   or_empty (Some [''val_loss'' \<mapsto> Fin 0.5]) (monitor (tracking [Lit ''ckpt/model.pt''] 1 (Fin 1)))
     = Some (Fin 0.5) \<and>
   py_ne (call_op (monitor_op (tracking [Lit ''ckpt/model.pt''] 1 (Fin 1))) (Fin 0.5)
            (best (tracking [Lit ''ckpt/model.pt''] 1 (Fin 1))))
         (best (tracking [Lit ''ckpt/model.pt''] 1 (Fin 1))) \<and>
   save_model disk_full_env (tracking [Lit ''ckpt/model.pt''] 1 (Fin 0.5)) 0 ''ckpt/model.pt''
       ckpt_world
     = (Some (OSError ''No space left on device''),
        ckpt_world\<lparr>files := [''ckpt/model.pt'' \<mapsto> Truncated]\<rparr>) \<and>
   on_epoch_end disk_full_env (tracking [Lit ''ckpt/model.pt''] 1 (Fin 1)) 0
       (Some [''val_loss'' \<mapsto> Fin 0.5]) ckpt_world
     = (Some (OSError ''No space left on device''),
        ckpt_world\<lparr>files := [''ckpt/model.pt'' \<mapsto> Truncated]\<rparr>,
        tracking [Lit ''ckpt/model.pt''] 1 (Fin 0.5)) \<and>
   epochs_since_last_save (tracking [Lit ''ckpt/model.pt''] 1 (Fin 0.5)) = 0 \<and>
   best (tracking [Lit ''ckpt/model.pt''] 1 (Fin 0.5)) = Fin 0.5"
proof -
  let ?s = "tracking [Lit ''ckpt/model.pt''] 1 (Fin 1)"
  let ?s1 = "tracking [Lit ''ckpt/model.pt''] 1 (Fin 0.5)"
  let ?l = "Some [''val_loss'' \<mapsto> Fin 0.5]"
  have h1: "period ?s \<le> epochs_since_last_save ?s + 1" by (simp add: eval_defs)
  have h2: "format_path disk_full_env (filepath ?s) (0 + 1) (or_empty ?l) = Inr ''ckpt/model.pt''"
    by (simp add: eval_defs disk_full_env_def)
  have h3: "save_best_only ?s \<longrightarrow>
      or_empty ?l (monitor ?s) = Some (Fin 0.5) \<and>
      py_ne (call_op (monitor_op ?s) (Fin 0.5) (best ?s)) (best ?s)"
    by (simp add: eval_defs)
  have h4: "?s1 = ?s\<lparr>epochs_since_last_save := 0,
                      best := (if save_best_only ?s then Fin 0.5 else best ?s)\<rparr>"
    by (simp add: eval_defs)
  have h5: "ckpt_world = (if verbose ?s > 0
               then print (if save_best_only ?s
                           then Improved (0 + 1) (monitor ?s) (best ?s) (Fin 0.5) ''ckpt/model.pt''
                           else Saving (0 + 1) ''ckpt/model.pt'') ckpt_world
               else ckpt_world)"
    by (simp add: eval_defs)
  have h6: "save_model disk_full_env ?s1 0 ''ckpt/model.pt'' ckpt_world
              = (Some (OSError ''No space left on device''),
                 ckpt_world\<lparr>files := [''ckpt/model.pt'' \<mapsto> Truncated]\<rparr>)"
    by (simp add: eval_defs disk_full_env_def)
  have h7: "save_best_only ?s" by (simp add: eval_defs)
  have h8: "or_empty ?l (monitor ?s) = Some (Fin 0.5)"
    "py_ne (call_op (monitor_op ?s) (Fin 0.5) (best ?s)) (best ?s)"
    using h3 h7 by simp_all
  show ?thesis
    using h1 h2 h6 h7 h8 persist_failure_keeps_updates [OF h1 h2 h3 h4 h5 h6]
    by simp
qed

section \<open>The cadence over a run\<close>

lemma save_attempt_counter:
  "save_attempt E s epoch logs w = (r, w', s') \<Longrightarrow>
     epochs_since_last_save s' = 0 \<and> period s' = period s"
  by (auto simp add: save_attempt_def Let_def split: sum.splits option.splits if_splits prod.splits)

lemma on_epoch_end_counter:
  "on_epoch_end E s epoch logs w = (r, w', s') \<Longrightarrow>
     period s' = period s \<and>
     epochs_since_last_save s' =
       (if period s \<le> epochs_since_last_save s + 1 then 0 else epochs_since_last_save s + 1)"
  by (auto simp add: on_epoch_end_def Let_def dest: save_attempt_counter split: if_splits)

lemma run_snoc:
  "run E (cs @ [(epoch, logs)]) ws =
     (case run E cs ws of (w, s) \<Rightarrow>
        (case on_epoch_end E s epoch logs w of (r, w', s') \<Rightarrow> (w', s')))"
  by (induction E cs ws rule: run.induct) (auto split: prod.splits)

lemma succ_mod:
  fixes k n :: int
  assumes "1 \<le> n" and "0 \<le> k"
  shows "(k + 1) mod n = (if n \<le> k mod n + 1 then 0 else k mod n + 1)"
proof -
  have b: "0 \<le> k mod n" "k mod n < n" using assms by simp_all
  have e: "(k + 1) mod n = (k mod n + 1) mod n" by (simp add: mod_add_left_eq)
  show ?thesis
  proof (cases "n \<le> k mod n + 1")
    case True
    with b have "k mod n + 1 = n" by simp
    with e True show ?thesis by simp
  next
    case False
    with b have "(k mod n + 1) mod n = k mod n + 1" by simp
    with e False show ?thesis by simp
  qed
qed

lemma run_counter:
  assumes "1 \<le> period s0" and "epochs_since_last_save s0 = 0"
  shows "run E calls (w0, s0) = (w, s) \<Longrightarrow>
         period s = period s0 \<and>
         epochs_since_last_save s = int (length calls) mod period s0"
proof (induction calls arbitrary: w s rule: rev_induct)
  case Nil
  with assms show ?case by simp
next
  case (snoc c cs)
  obtain w1 s1 where r1: "run E cs (w0, s0) = (w1, s1)" by (cases "run E cs (w0, s0)")
  obtain epoch logs where c: "c = (epoch, logs)" by (cases c)
  obtain r where step: "on_epoch_end E s1 epoch logs w1 = (r, w, s)"
    using snoc.prems r1 c by (auto simp add: run_snoc split: prod.splits)
  have ih: "period s1 = period s0"
    "epochs_since_last_save s1 = int (length cs) mod period s0"
    using snoc.IH [OF r1] by simp_all
  have "epochs_since_last_save s = (int (length cs) + 1) mod period s0"
    using on_epoch_end_counter [OF step] ih succ_mod [OF assms(1), of "int (length cs)"]
    by simp
  moreover have "period s = period s0" using on_epoch_end_counter [OF step] ih by simp
  ultimately show ?case by (simp add: add.commute)
qed

lemma on_epoch_end_due:
  assumes "period s \<le> epochs_since_last_save s + 1"
  shows "case format_path E (filepath s) (epoch + 1) (or_empty logs) of
           Inl e \<Rightarrow>
             on_epoch_end E s epoch logs w = (Some e, w, s\<lparr>epochs_since_last_save := 0\<rparr>)
         | Inr path \<Rightarrow>
             (if save_best_only s then
                (case or_empty logs (monitor s) of
                   None \<Rightarrow>
                     on_epoch_end E s epoch logs w =
                       (None,
                        (if verbose s > 0 then print (Skipping (monitor s)) w else w),
                        s\<lparr>epochs_since_last_save := 0\<rparr>)
                 | Some current \<Rightarrow>
                     (if py_ne (call_op (monitor_op s) current (best s)) (best s) then
                        on_epoch_end E s epoch logs w =
                          (fst (save_model E (s\<lparr>epochs_since_last_save := 0, best := current\<rparr>)
                                  epoch path
                                  (if verbose s > 0
                                   then print (Improved (epoch + 1) (monitor s) (best s)
                                                 current path) w
                                   else w)),
                           snd (save_model E (s\<lparr>epochs_since_last_save := 0, best := current\<rparr>)
                                  epoch path
                                  (if verbose s > 0
                                   then print (Improved (epoch + 1) (monitor s) (best s)
                                                 current path) w
                                   else w)),
                           s\<lparr>epochs_since_last_save := 0, best := current\<rparr>)
                      else
                        on_epoch_end E s epoch logs w =
                          (None,
                           (if verbose s > 0
                            then print (NotImproved (epoch + 1) (monitor s) (best s)) w
                            else w),
                           s\<lparr>epochs_since_last_save := 0\<rparr>)))
              else
                on_epoch_end E s epoch logs w =
                  (fst (save_model E (s\<lparr>epochs_since_last_save := 0\<rparr>) epoch path
                          (if verbose s > 0 then print (Saving (epoch + 1) path) w else w)),
                   snd (save_model E (s\<lparr>epochs_since_last_save := 0\<rparr>) epoch path
                          (if verbose s > 0 then print (Saving (epoch + 1) path) w else w)),
                   s\<lparr>epochs_since_last_save := 0\<rparr>))"
  using assms
  by (auto simp add: on_epoch_end_def save_attempt_def Let_def split_beta
        split: sum.splits option.splits)

text \<open>
  Claim C3. Take a callback with period \<open>N \<ge> 1\<close> whose counter is 0, as
  \<^verbatim>\<open>__init__\<close> leaves it, and any sequence of calls, of length \<open>k - 1\<close>. After
  them the counter is \<open>(k - 1) mod N\<close>, so it lies in \<open>[0, N)\<close>. The next call,
  the \<open>k\<close>-th, makes a save attempt exactly when \<open>k mod N = 0\<close>: the counter is
  reset, the path is resolved (a failure propagates), and the save is evaluated
  (unconditional, skipped for a missing metric, or decided by the comparison
  with \<^verbatim>\<open>best\<close>, with the messages and the call of \<^verbatim>\<open>_save_model\<close> that go
  with each outcome). When \<open>k mod N \<noteq> 0\<close> the call changes nothing but the
  counter. After it the counter is \<open>k mod N\<close>, again in \<open>[0, N)\<close>.
\<close>

theorem save_attempt_every_period:
  assumes "1 \<le> period s0" and "epochs_since_last_save s0 = 0"
    and "run E calls (w0, s0) = (w, s)"
  shows "epochs_since_last_save s = int (length calls) mod period s0 \<and>
         0 \<le> epochs_since_last_save s \<and> epochs_since_last_save s < period s0 \<and>
         (if (int (length calls) + 1) mod period s0 = 0
          then
            (case format_path E (filepath s) (epoch + 1) (or_empty logs) of
               Inl e \<Rightarrow>
                 on_epoch_end E s epoch logs w =
                   (Some e, w, s\<lparr>epochs_since_last_save := 0\<rparr>)
             | Inr path \<Rightarrow>
                 (if save_best_only s then
                    (case or_empty logs (monitor s) of
                       None \<Rightarrow>
                         on_epoch_end E s epoch logs w =
                           (None,
                            (if verbose s > 0 then print (Skipping (monitor s)) w else w),
                            s\<lparr>epochs_since_last_save := 0\<rparr>)
                     | Some current \<Rightarrow>
                         (if py_ne (call_op (monitor_op s) current (best s)) (best s) then
                            on_epoch_end E s epoch logs w =
                              (fst (save_model E
                                      (s\<lparr>epochs_since_last_save := 0, best := current\<rparr>)
                                      epoch path
                                      (if verbose s > 0
                                       then print (Improved (epoch + 1) (monitor s) (best s)
                                                     current path) w
                                       else w)),
                               snd (save_model E
                                      (s\<lparr>epochs_since_last_save := 0, best := current\<rparr>)
                                      epoch path
                                      (if verbose s > 0
                                       then print (Improved (epoch + 1) (monitor s) (best s)
                                                     current path) w
                                       else w)),
                               s\<lparr>epochs_since_last_save := 0, best := current\<rparr>)
                          else
                            on_epoch_end E s epoch logs w =
                              (None,
                               (if verbose s > 0
                                then print (NotImproved (epoch + 1) (monitor s) (best s)) w
                                else w),
                               s\<lparr>epochs_since_last_save := 0\<rparr>)))
                  else
                    on_epoch_end E s epoch logs w =
                      (fst (save_model E (s\<lparr>epochs_since_last_save := 0\<rparr>) epoch path
                              (if verbose s > 0 then print (Saving (epoch + 1) path) w else w)),
                       snd (save_model E (s\<lparr>epochs_since_last_save := 0\<rparr>) epoch path
                              (if verbose s > 0 then print (Saving (epoch + 1) path) w else w)),
                       s\<lparr>epochs_since_last_save := 0\<rparr>)))
          else on_epoch_end E s epoch logs w =
                 (None, w, s\<lparr>epochs_since_last_save := epochs_since_last_save s + 1\<rparr>)) \<and>
         epochs_since_last_save (snd (snd (on_epoch_end E s epoch logs w)))
           = (int (length calls) + 1) mod period s0"
proof -
  have c: "period s = period s0"
    "epochs_since_last_save s = int (length calls) mod period s0"
    using run_counter [OF assms] by simp_all
  have b: "0 \<le> epochs_since_last_save s" "epochs_since_last_save s < period s0"
    using c assms(1) by simp_all
  have m: "(int (length calls) + 1) mod period s0 =
             (if period s0 \<le> epochs_since_last_save s + 1 then 0
              else epochs_since_last_save s + 1)"
    using succ_mod [OF assms(1), of "int (length calls)"] c by simp
  have d: "((int (length calls) + 1) mod period s0 = 0) =
             (period s \<le> epochs_since_last_save s + 1)"
    using m b c by auto
  obtain r w' s' where step: "on_epoch_end E s epoch logs w = (r, w', s')"
    by (cases "on_epoch_end E s epoch logs w")
  have after: "epochs_since_last_save (snd (snd (on_epoch_end E s epoch logs w)))
           = (int (length calls) + 1) mod period s0"
    using on_epoch_end_counter [OF step] step m c by simp
  show ?thesis
  proof (cases "period s \<le> epochs_since_last_save s + 1")
    case True
    then have z: "(int (length calls) + 1) mod period s0 = 0" using d by simp
    show ?thesis
      unfolding z using c(2) b after z on_epoch_end_due [OF True, of E epoch logs w]
      by (simp only: if_True simp_thms)
  next
    case False
    then have nz: "(int (length calls) + 1) mod period s0 \<noteq> 0" using d by simp
    have "on_epoch_end E s epoch logs w =
            (None, w, s\<lparr>epochs_since_last_save := epochs_since_last_save s + 1\<rparr>)"
      using False by (simp add: on_epoch_end_def Let_def)
    then show ?thesis using c(2) b after nz by (simp only: if_False simp_thms)
  qed
qed

theorem save_attempt_every_period_witness:
  "1 \<le> period (tracking [Lit ''ckpt/model.pt''] 2 PosInf) \<and>
   epochs_since_last_save (tracking [Lit ''ckpt/model.pt''] 2 PosInf) = 0 \<and>
   run plain_env [(0, Some [''val_loss'' \<mapsto> Fin 0.5])]
       (ckpt_world, tracking [Lit ''ckpt/model.pt''] 2 PosInf)
     = (ckpt_world, (tracking [Lit ''ckpt/model.pt''] 2 PosInf)\<lparr>epochs_since_last_save := 1\<rparr>) \<and>
   (int (length [(0::int, Some [''val_loss'' \<mapsto> Fin 0.5])]) + 1) mod 2 = 0 \<and>
   on_epoch_end plain_env
       ((tracking [Lit ''ckpt/model.pt''] 2 PosInf)\<lparr>epochs_since_last_save := 1\<rparr>) 1
       (Some [''val_loss'' \<mapsto> Fin 0.25]) ckpt_world
     = (None, ckpt_world\<lparr>files := [''ckpt/model.pt'' \<mapsto> FullModel 7]\<rparr>,
        tracking [Lit ''ckpt/model.pt''] 2 (Fin 0.25)) \<and>
   epochs_since_last_save
     (snd (snd (on_epoch_end plain_env
        ((tracking [Lit ''ckpt/model.pt''] 2 PosInf)\<lparr>epochs_since_last_save := 1\<rparr>) 1
        (Some [''val_loss'' \<mapsto> Fin 0.25]) ckpt_world))) = 0"
proof -
  let ?s0 = "tracking [Lit ''ckpt/model.pt''] 2 PosInf"
  let ?calls = "[(0::int, Some [''val_loss'' \<mapsto> Fin 0.5])]"
  have h1: "1 \<le> period ?s0" by (simp add: eval_defs)
  have h2: "epochs_since_last_save ?s0 = 0" by (simp add: eval_defs)
  have h3: "run plain_env ?calls (ckpt_world, ?s0)
              = (ckpt_world, ?s0\<lparr>epochs_since_last_save := 1\<rparr>)"
    by (simp add: eval_defs)
  have p: "period ?s0 = 2" by (simp add: eval_defs)
  have m: "(int (length ?calls) + 1) mod 2 = 0" by simp
  note t = save_attempt_every_period [OF h1 h2 h3, of 1 "Some [''val_loss'' \<mapsto> Fin 0.25]"]
  have t1: "on_epoch_end plain_env (?s0\<lparr>epochs_since_last_save := 1\<rparr>) 1
              (Some [''val_loss'' \<mapsto> Fin 0.25]) ckpt_world
            = (None, ckpt_world\<lparr>files := [''ckpt/model.pt'' \<mapsto> FullModel 7]\<rparr>,
               tracking [Lit ''ckpt/model.pt''] 2 (Fin 0.25))"
    using t [THEN conjunct2, THEN conjunct2, THEN conjunct2, THEN conjunct1] p
    by (simp add: eval_defs)
  have t2: "epochs_since_last_save
     (snd (snd (on_epoch_end plain_env (?s0\<lparr>epochs_since_last_save := 1\<rparr>) 1
        (Some [''val_loss'' \<mapsto> Fin 0.25]) ckpt_world))) = 0"
    using t [THEN conjunct2, THEN conjunct2, THEN conjunct2, THEN conjunct2] p by simp
  from h1 h2 h3 m t1 t2 show ?thesis by blast
qed

section \<open>The best value\<close>

text \<open>
  For values that are ordered (neither is NaN), an update of \<^verbatim>\<open>best\<close> stores the
  extremum of the old best value and the current one, in either argument order.
\<close>

lemma improved_is_extremum:
  assumes "current \<noteq> NaN" and "b \<noteq> NaN"
    and "py_ne (call_op op current b) b"
  shows "call_op op b current = current \<and> call_op op current b = current"
  using assms
  by (cases op; cases current; cases b)
     (auto simp add: py_ne_def py_min_def py_max_def split: if_splits)

lemma best_update_is_extremum:
  assumes "on_epoch_end E self epoch logs w = (r, w', self')"
    and "best self' \<noteq> best self"
    and "best self \<noteq> NaN"
    and "or_empty logs (monitor self) \<noteq> Some NaN"
  shows "\<exists>current. or_empty logs (monitor self) = Some current \<and>
           best self' = current \<and>
           call_op (monitor_op self) (best self) current = current \<and>
           call_op (monitor_op self) current (best self) = current"
proof -
  have "\<exists>current. or_empty logs (monitor self) = Some current \<and> best self' = current \<and>
          py_ne (call_op (monitor_op self) current (best self)) (best self)"
    using assms(1,2)
    by (auto simp add: on_epoch_end_def save_attempt_def Let_def
          split: if_splits sum.splits option.splits prod.splits)
  then obtain current where c: "or_empty logs (monitor self) = Some current"
    "best self' = current"
    "py_ne (call_op (monitor_op self) current (best self)) (best self)"
    by blast
  from c(1) assms(4) have "current \<noteq> NaN" by auto
  from improved_is_extremum [OF this assms(3) c(3)] c show ?thesis by simp
qed

text \<open>
  The examples of the specification, minimizing with best 1.0: a current value
  of 0.5 is saved and becomes the best value; 1.5 is not saved and the best
  value stays 1.0.
\<close>

lemma minimize_examples:
  "on_epoch_end plain_env (tracking [Lit ''ckpt/model.pt''] 1 (Fin 1)) 0
       (Some [''val_loss'' \<mapsto> Fin 0.5]) ckpt_world
     = (None, ckpt_world\<lparr>files := [''ckpt/model.pt'' \<mapsto> FullModel 7]\<rparr>,
        tracking [Lit ''ckpt/model.pt''] 1 (Fin 0.5))"
  "on_epoch_end plain_env (tracking [Lit ''ckpt/model.pt''] 1 (Fin 1)) 0
       (Some [''val_loss'' \<mapsto> Fin 1.5]) ckpt_world
     = (None, ckpt_world, tracking [Lit ''ckpt/model.pt''] 1 (Fin 1))"
  by (simp_all add: eval_defs)

text \<open>
  Claim C7 at a NaN metric. \<^verbatim>\<open>min(nan, 1.0)\<close> is \<^verbatim>\<open>nan\<close>, which differs from
  \<^verbatim>\<open>best\<close>, so the NaN epoch counts as an improvement: the model is saved and
  \<^verbatim>\<open>best\<close> becomes NaN, although the minimum of the old best value and the
  current one is 1.0. From then on every value differs from \<^verbatim>\<open>best\<close>: the next
  epoch, with loss 5.0, is saved over the checkpoint and becomes the best value,
  which has worsened from 1.0 to 5.0.
\<close>

theorem nan_metric_worsens_best:
  "on_epoch_end plain_env (tracking [Lit ''ckpt/model.pt''] 1 (Fin 1)) 0
       (Some [''val_loss'' \<mapsto> NaN]) ckpt_world
     = (None, ckpt_world\<lparr>files := [''ckpt/model.pt'' \<mapsto> FullModel 7]\<rparr>,
        tracking [Lit ''ckpt/model.pt''] 1 NaN) \<and>
   call_op PyMin (Fin 1) NaN = Fin 1 \<and>
   on_epoch_end plain_env (tracking [Lit ''ckpt/model.pt''] 1 NaN) 1
       (Some [''val_loss'' \<mapsto> Fin 5])
       (ckpt_world\<lparr>files := [''ckpt/model.pt'' \<mapsto> FullModel 7]\<rparr>)
     = (None, ckpt_world\<lparr>files := [''ckpt/model.pt'' \<mapsto> FullModel 7]\<rparr>,
        tracking [Lit ''ckpt/model.pt''] 1 (Fin 5)) \<and>
   py_lt (Fin 1) (Fin 5)"
  by (simp add: eval_defs)

end
